theory Spec2Isabelle
  imports Main "HOL-Library.AList"
begin

section \<open>Values of the instrumented program\<close>

text \<open>
  An error raised by Python code. \<open>is_Exception\<close> says whether the error is an instance
  of \<open>Exception\<close> (as opposed to a bare \<open>BaseException\<close> such as
  \<open>asyncio.CancelledError\<close>, \<open>KeyboardInterrupt\<close> or \<open>GeneratorExit\<close>);
  \<open>exn_str\<close> is the outcome of \<open>str(e)\<close>, which is user code and may itself raise.
\<close>

datatype exn = Exn (exn_class: string) (is_Exception: bool) (exn_str: "exn + string")

definition RecursionError :: exn where
  "RecursionError = Exn ''RecursionError'' True (Inr ''maximum recursion depth exceeded'')"

definition int_too_long :: exn where
  "int_too_long = Exn ''ValueError'' True
     (Inr ''Exceeds the limit (4300 digits) for integer string conversion'')"

definition self_twice :: exn where
  "self_twice = Exn ''TypeError'' True (Inr ''got multiple values for argument self'')"

text \<open>
  What \<open>serialize_value\<close> returns: a tree of fresh Python values. \<open>SSubclass\<close> is an
  instance of a subclass of \<open>str\<close>, \<open>int\<close>, \<open>float\<close> or \<open>bool\<close> with a \<open>__repr__\<close> of its
  own, which \<open>serialize_value\<close> returns as it got it; \<open>SOpaque\<close> stands for a value that
  is not JSON-representable (it only occurs inside the field export of a pydantic
  model, which \<open>serialize_value\<close> returns as it is). Both carry the outcome of \<open>repr\<close> of
  the value, which is user code and may raise. A float is identified by its \<open>repr\<close>.
  A dict is an association list in insertion order.
\<close>

datatype sval =
    SNone
  | SBool bool
  | SInt int
  | SFloat string
  | SStr string
  | SList "sval list"
  | SDict "(string \<times> sval) list"
  | SSubclass "exn + string"
  | SOpaque "exn + string"

text \<open>
  The values \<open>serialize_value\<close> receives. Containers are mutable objects and live in
  a store; a value refers to one by its address (\<open>PRef\<close>), so a container can contain
  itself. \<open>PSubclass\<close> is an instance of a subclass of \<open>str\<close>, \<open>int\<close>, \<open>float\<close> or
  \<open>bool\<close> with a \<open>__repr__\<close> of its own, given by the outcome of \<open>repr(value)\<close>;
  \<open>PModel\<close> is an instance of a pydantic \<open>BaseModel\<close>, given by the outcome of its
  \<open>model_dump()\<close>, which may raise (pydantic refuses a circular model); \<open>PObject\<close> is
  any other object, given by the outcome of \<open>str(value)\<close>. Lists, tuples, sets and
  dicts are instances of the builtin types themselves.
\<close>

datatype pyval =
    PNone
  | PBool bool
  | PInt int
  | PFloat string
  | PStr string
  | PSubclass "exn + string"
  | PModel "exn + (string \<times> sval) list"
  | PDatetime string
  | PUUID string
  | PObject "exn + string"
  | PRef nat

text \<open>
  A dict key is a hashable object; the code only ever applies \<open>str\<close> to it.
  \<open>KOther\<close> is a hashable object other than the listed primitives, identified by a
  number, with the outcome of its \<open>str\<close>.
\<close>

datatype pykey = KNone | KBool bool | KInt int | KStr string | KOther nat "exn + string"

datatype container =
    CList "pyval list"
  | CTuple "pyval list"
  | CSet "pyval list"
  | CDict "(pykey \<times> pyval) list"

type_synonym heap = "nat \<Rightarrow> container"

subsection \<open>The builtin \<open>str\<close> and \<open>repr\<close> on the values that occur\<close>

fun digits :: "nat \<Rightarrow> string" where
  "digits n = (if n < 10 then [char_of (48 + n)] else digits (n div 10) @ [char_of (48 + n mod 10)])"

declare digits.simps [simp del]

definition str_int :: "int \<Rightarrow> string" where
  "str_int i = (if i < 0 then CHR ''-'' # digits (nat (- i)) else digits (nat i))"

text \<open>
  \<open>str\<close> and \<open>repr\<close> of an \<open>int\<close> raise \<open>ValueError\<close> when the decimal form has more
  digits than \<open>sys.int_max_str_digits\<close>, 4300 unless configured otherwise.
\<close>

definition int_max_str_digits :: nat where
  "int_max_str_digits = 4300"

definition str_int_raises :: "int \<Rightarrow> bool" where
  "str_int_raises i = (int_max_str_digits < length (digits (nat \<bar>i\<bar>)))"

definition checked_str_int :: "int \<Rightarrow> exn + string" where
  "checked_str_int i = (if str_int_raises i then Inl int_too_long else Inr (str_int i))"

definition str_bool :: "bool \<Rightarrow> string" where
  "str_bool b = (if b then ''True'' else ''False'')"

fun str_key :: "pykey \<Rightarrow> exn + string" where
  "str_key KNone = Inr ''None''"
| "str_key (KBool b) = Inr (str_bool b)"
| "str_key (KInt i) = checked_str_int i"
| "str_key (KStr s) = Inr s"
| "str_key (KOther _ r) = r"

definition hex_digit :: "nat \<Rightarrow> char" where
  "hex_digit d = (if d < 10 then char_of (48 + d) else char_of (87 + d))"

text \<open>\<open>repr\<close> of a string of ASCII characters, as CPython's \<open>unicode_repr\<close> writes it.\<close>

definition repr_char :: "char \<Rightarrow> char \<Rightarrow> string" where
  "repr_char q c =
     (if c = q \<or> c = CHR 0x5C then [CHR 0x5C, c]
      else if c = CHR 0x09 then [CHR 0x5C, CHR ''t'']
      else if c = CHR 0x0A then [CHR 0x5C, CHR ''n'']
      else if c = CHR 0x0D then [CHR 0x5C, CHR ''r'']
      else if of_char c < (32::nat) \<or> of_char c = (127::nat)
        then [CHR 0x5C, CHR ''x'', hex_digit (of_char c div 16), hex_digit (of_char c mod 16)]
      else [c])"

definition repr_str :: "string \<Rightarrow> string" where
  "repr_str s =
     (let q = (if CHR 0x27 \<in> set s \<and> CHR 0x22 \<notin> set s then CHR 0x22 else CHR 0x27)
      in q # concat (map (repr_char q) s) @ [q])"

fun join :: "string \<Rightarrow> string list \<Rightarrow> string" where
  "join sep [] = []"
| "join sep [x] = x"
| "join sep (x # y # ys) = x @ sep @ join sep (y # ys)"

text \<open>
  \<open>repr\<close> of a returned value, in two parts: \<open>repr_error\<close> is the error it raises, if
  any (the first one met, left to right), and \<open>py_repr\<close> the string it returns when it
  raises none.
\<close>

fun first_error :: "exn option list \<Rightarrow> exn option" where
  "first_error [] = None"
| "first_error (Some e # xs) = Some e"
| "first_error (None # xs) = first_error xs"

fun repr_error :: "sval \<Rightarrow> exn option" where
  "repr_error (SInt i) = (if str_int_raises i then Some int_too_long else None)"
| "repr_error (SList xs) = first_error (map repr_error xs)"
| "repr_error (SDict kvs) = first_error (map (\<lambda>(k, v). repr_error v) kvs)"
| "repr_error (SSubclass r) = (case r of Inl e \<Rightarrow> Some e | Inr s \<Rightarrow> None)"
| "repr_error (SOpaque r) = (case r of Inl e \<Rightarrow> Some e | Inr s \<Rightarrow> None)"
| "repr_error v = None"

fun py_repr :: "sval \<Rightarrow> string" where
  "py_repr SNone = ''None''"
| "py_repr (SBool b) = str_bool b"
| "py_repr (SInt i) = str_int i"
| "py_repr (SFloat r) = r"
| "py_repr (SStr s) = repr_str s"
| "py_repr (SList xs) = ''['' @ join '', '' (map py_repr xs) @ '']''"
| "py_repr (SDict kvs) =
     ''{'' @ join '', '' (map (\<lambda>(k, v). repr_str k @ '': '' @ py_repr v) kvs) @ ''}''"
| "py_repr (SSubclass r) = (case r of Inl e \<Rightarrow> [] | Inr s \<Rightarrow> s)"
| "py_repr (SOpaque r) = (case r of Inl e \<Rightarrow> [] | Inr s \<Rightarrow> s)"


section \<open>\<open>serialize_value\<close>\<close>

text \<open>
  A comprehension evaluates its element expression for each item in turn; the first
  error ends it.
\<close>

fun list_comp :: "('a \<Rightarrow> exn + 'b) \<Rightarrow> 'a list \<Rightarrow> exn + 'b list" where
  "list_comp f [] = Inr []"
| "list_comp f (x # xs) =
     (case f x of
        Inl e \<Rightarrow> Inl e
      | Inr y \<Rightarrow> (case list_comp f xs of Inl e \<Rightarrow> Inl e | Inr ys \<Rightarrow> Inr (y # ys)))"

text \<open>
  The dict comprehension \<open>{str(k): f(v) for k, v in items}\<close>: the key expression is
  evaluated before the value expression, and the pair is stored into the dict being
  built (a later equal key replaces the value and keeps the place of the first).
\<close>

fun dict_comp :: "('b \<Rightarrow> exn + sval) \<Rightarrow> (pykey \<times> 'b) list \<Rightarrow> (string \<times> sval) list
    \<Rightarrow> exn + (string \<times> sval) list" where
  "dict_comp f [] acc = Inr acc"
| "dict_comp f ((k, v) # kvs) acc =
     (case str_key k of
        Inl e \<Rightarrow> Inl e
      | Inr s \<Rightarrow> (case f v of
                   Inl e \<Rightarrow> Inl e
                 | Inr y \<Rightarrow> dict_comp f kvs (AList.update s y acc)))"

text \<open>
  \<open>serialize_value limit h value\<close>: \<open>limit\<close> is the number of calls of \<open>serialize_value\<close>,
  one inside the other, that the interpreter still allows before it raises
  \<open>RecursionError\<close>.
\<close>

fun serialize_value :: "nat \<Rightarrow> heap \<Rightarrow> pyval \<Rightarrow> exn + sval" where
  "serialize_value 0 h value = Inl RecursionError"
| "serialize_value (Suc n) h value =
     (case value of
        PNone \<Rightarrow> Inr SNone
      | PStr s \<Rightarrow> Inr (SStr s)
      | PInt i \<Rightarrow> Inr (SInt i)
      | PFloat r \<Rightarrow> Inr (SFloat r)
      | PBool b \<Rightarrow> Inr (SBool b)
      | PSubclass r \<Rightarrow> Inr (SSubclass r)
      | PModel dump \<Rightarrow> map_sum id SDict dump
      | PRef a \<Rightarrow>
          (case h a of
             CList items \<Rightarrow> map_sum id SList (list_comp (serialize_value n h) items)
           | CTuple items \<Rightarrow> map_sum id SList (list_comp (serialize_value n h) items)
           | CSet items \<Rightarrow> map_sum id SList (list_comp (serialize_value n h) items)
           | CDict items \<Rightarrow> map_sum id SDict (dict_comp (serialize_value n h) items []))
      | PDatetime s \<Rightarrow> Inr (SStr s)
      | PUUID s \<Rightarrow> Inr (SStr s)
      | PObject r \<Rightarrow> map_sum id SStr r)"

section \<open>The tracing backend\<close>

text \<open>
  Modelled from the spec: the module \<open>llama_stack.providers.utils.telemetry.tracing\<close>
  is not among the sources. The spec gives its interface: \<open>open_span\<close> takes a name and
  an attribute mapping and returns a scoped span, \<open>set_attribute\<close> adds an attribute to
  that span, and leaving the scope on any path finalizes the span. The backend's state
  is the list of the spans opened so far; a span is known by its position in it.
  This backend records and never raises; what the wrappers do when the backend itself
  raises (the spec lets such errors pass to the caller) is not part of the model.
\<close>

record span =
  span_name :: string
  span_attrs :: "(string \<times> sval) list"
  span_closed :: bool

type_synonym tracer = "span list"

definition upd_span :: "nat \<Rightarrow> (span \<Rightarrow> span) \<Rightarrow> tracer \<Rightarrow> tracer" where
  "upd_span sid f tr = (if sid < length tr then tr[sid := f (tr ! sid)] else tr)"

definition open_span :: "string \<Rightarrow> (string \<times> sval) list \<Rightarrow> tracer \<Rightarrow> tracer \<times> nat" where
  "open_span name attrs tr =
     (tr @ [\<lparr>span_name = name, span_attrs = attrs, span_closed = False\<rparr>], length tr)"

definition set_attribute :: "nat \<Rightarrow> string \<Rightarrow> sval \<Rightarrow> tracer \<Rightarrow> tracer" where
  "set_attribute sid k v tr = upd_span sid (\<lambda>s. s\<lparr>span_attrs := AList.update k v (span_attrs s)\<rparr>) tr"

definition close_span :: "nat \<Rightarrow> tracer \<Rightarrow> tracer" where
  "close_span sid tr = upd_span sid (\<lambda>s. s\<lparr>span_closed := True\<rparr>) tr"

section \<open>Methods and \<open>trace_method\<close>\<close>

datatype receiver = Receiver (class_name: string) (inst_id: nat)

text \<open>
  An asynchronous generator, as the sequence of what each \<open>__anext__\<close> does: yield an
  item, finish, or raise. It may go on for ever.
\<close>

codatatype gen = GYield pyval gen | GReturn | GRaise exn

type_synonym kwargs = "(string \<times> pyval) list"

datatype body =
    SyncBody "receiver \<Rightarrow> pyval list \<Rightarrow> kwargs \<Rightarrow> exn + pyval"
  | AsyncBody "receiver \<Rightarrow> pyval list \<Rightarrow> kwargs \<Rightarrow> exn + pyval"
  | AsyncGenBody "receiver \<Rightarrow> pyval list \<Rightarrow> kwargs \<Rightarrow> gen"

text \<open>
  A function defined in a class body: its \<open>__name__\<close>, the parameter names of its
  signature (the receiver first) and what calling it does. The outcome of a call is
  a function of the receiver and the arguments; a coroutine is given by the outcome
  of awaiting it.
\<close>

record pymethod =
  meth_name :: string
  meth_params :: "string list"
  meth_body :: body

definition is_async :: "pymethod \<Rightarrow> bool" where
  "is_async m = (case meth_body m of AsyncBody _ \<Rightarrow> True | _ \<Rightarrow> False)"

definition is_async_gen :: "pymethod \<Rightarrow> bool" where
  "is_async_gen m = (case meth_body m of AsyncGenBody _ \<Rightarrow> True | _ \<Rightarrow> False)"

text \<open>
  Calling the method itself, with no instrumentation: \<open>call_method\<close> for a plain
  function or a coroutine function, \<open>call_gen\<close> for a generator function. The last
  case of each makes it total and is never met: \<open>trace_method\<close> gives a generator
  function the generator wrapper and the others a wrapper that uses \<open>call_method\<close>.
\<close>

definition call_method :: "pymethod \<Rightarrow> receiver \<Rightarrow> pyval list \<Rightarrow> kwargs \<Rightarrow> exn + pyval" where
  "call_method m self args kws =
     (case meth_body m of
        SyncBody f \<Rightarrow> f self args kws
      | AsyncBody f \<Rightarrow> f self args kws
      | AsyncGenBody g \<Rightarrow> Inl (Exn ''TypeError'' True (Inr ''not a plain call'')))"

definition call_gen :: "pymethod \<Rightarrow> receiver \<Rightarrow> pyval list \<Rightarrow> kwargs \<Rightarrow> gen" where
  "call_gen m self args kws =
     (case meth_body m of
        AsyncGenBody g \<Rightarrow> g self args kws
      | _ \<Rightarrow> GRaise (Exn ''TypeError'' True (Inr ''not an async generator'')))"

subsection \<open>\<open>create_span_context\<close>\<close>

text \<open>The loop over \<open>enumerate(args)\<close>.\<close>

fun positional_args :: "nat \<Rightarrow> heap \<Rightarrow> string list \<Rightarrow> nat \<Rightarrow> pyval list
    \<Rightarrow> (string \<times> sval) list \<Rightarrow> exn + (string \<times> sval) list" where
  "positional_args lim h param_names i [] combined_args = Inr combined_args"
| "positional_args lim h param_names i (arg # args) combined_args =
     (let param_name = (if i < length param_names then param_names ! i
                        else ''position_'' @ digits (i + 1))
      in case serialize_value lim h arg of
           Inl e \<Rightarrow> Inl e
         | Inr s \<Rightarrow> positional_args lim h param_names (i + 1) args
                     (AList.update param_name s combined_args))"

text \<open>The loop over \<open>kwargs.items()\<close>; a keyword is a string, and \<open>str\<close> returns it.\<close>

fun keyword_args :: "nat \<Rightarrow> heap \<Rightarrow> kwargs \<Rightarrow> (string \<times> sval) list
    \<Rightarrow> exn + (string \<times> sval) list" where
  "keyword_args lim h [] combined_args = Inr combined_args"
| "keyword_args lim h ((k, v) # kws) combined_args =
     (case serialize_value lim h v of
        Inl e \<Rightarrow> Inl e
      | Inr s \<Rightarrow> keyword_args lim h kws (AList.update k s combined_args))"

definition combine_args :: "nat \<Rightarrow> heap \<Rightarrow> pymethod \<Rightarrow> pyval list \<Rightarrow> kwargs
    \<Rightarrow> exn + (string \<times> sval) list" where
  "combine_args lim h m args kws =
     (case positional_args lim h (drop 1 (meth_params m)) 0 args [] of
        Inl e \<Rightarrow> Inl e
      | Inr combined_args \<Rightarrow> keyword_args lim h kws combined_args)"

definition span_type :: "pymethod \<Rightarrow> string" where
  "span_type m = (if is_async_gen m then ''async_generator''
                  else if is_async m then ''async'' else ''sync'')"

definition create_span_context :: "nat \<Rightarrow> heap \<Rightarrow> pymethod \<Rightarrow> receiver \<Rightarrow> pyval list \<Rightarrow> kwargs
    \<Rightarrow> exn + (string \<times> string \<times> (string \<times> sval) list)" where
  "create_span_context lim h m self args kws =
     (case combine_args lim h m args kws of
        Inl e \<Rightarrow> Inl e
      | Inr combined_args \<Rightarrow>
          (case repr_error (SDict combined_args) of
             Some e \<Rightarrow> Inl e
           | None \<Rightarrow>
               Inr (class_name self, meth_name m,
                    [(''__autotraced__'', SBool True),
                     (''__class__'', SStr (class_name self)),
                     (''__method__'', SStr (meth_name m)),
                     (''__type__'', SStr (span_type m)),
                     (''__args__'', SStr (py_repr (SDict combined_args)))])))"

subsection \<open>The three wrappers\<close>

text \<open>
  A wrapper takes the backend's state and returns it with the outcome of the call.
  The wrappers are declared \<open>(self, *args, **kwargs)\<close>: a call with a keyword named
  \<open>self\<close> raises \<open>TypeError\<close> before anything of the wrapper runs. The \<open>with\<close> block
  closes the span on every path out of it; an error raised by \<open>create_span_context\<close>
  comes before the block, when no span is open.
\<close>

definition sync_wrapper :: "nat \<Rightarrow> heap \<Rightarrow> pymethod \<Rightarrow> receiver \<Rightarrow> pyval list \<Rightarrow> kwargs
    \<Rightarrow> tracer \<Rightarrow> tracer \<times> (exn + pyval)" where
  "sync_wrapper lim h m self args kws tr =
     (if ''self'' \<in> fst ` set kws then (tr, Inl self_twice) else
      case create_span_context lim h m self args kws of
        Inl e \<Rightarrow> (tr, Inl e)
      | Inr (cname, mname, span_attributes) \<Rightarrow>
          (let (tr1, sp) = open_span (cname @ ''.'' @ mname) span_attributes tr
           in case call_method m self args kws of
                Inr result \<Rightarrow>
                  (case serialize_value lim h result of
                     Inl e \<Rightarrow> (close_span sp tr1, Inl e)
                   | Inr out \<Rightarrow>
                       (close_span sp (set_attribute sp ''output'' out tr1), Inr result))
              | Inl e \<Rightarrow> (close_span sp tr1, Inl e)))"

definition async_wrapper :: "nat \<Rightarrow> heap \<Rightarrow> pymethod \<Rightarrow> receiver \<Rightarrow> pyval list \<Rightarrow> kwargs
    \<Rightarrow> tracer \<Rightarrow> tracer \<times> (exn + pyval)" where
  "async_wrapper lim h m self args kws tr =
     (if ''self'' \<in> fst ` set kws then (tr, Inl self_twice) else
      case create_span_context lim h m self args kws of
        Inl e \<Rightarrow> (tr, Inl e)
      | Inr (cname, mname, span_attributes) \<Rightarrow>
          (let (tr1, sp) = open_span (cname @ ''.'' @ mname) span_attributes tr;
               outcome = (case call_method m self args kws of
                            Inr result \<Rightarrow>
                              (case serialize_value lim h result of
                                 Inl e \<Rightarrow> Inl e
                               | Inr out \<Rightarrow> Inr (out, result))
                          | Inl e \<Rightarrow> Inl e)
           in case outcome of
                Inr (out, result) \<Rightarrow>
                  (close_span sp (set_attribute sp ''output'' out tr1), Inr result)
              | Inl e \<Rightarrow>
                  (if is_Exception e then
                     (case exn_str e of
                        Inl e' \<Rightarrow> (close_span sp tr1, Inl e')
                      | Inr text \<Rightarrow>
                          (close_span sp (set_attribute sp ''error'' (SStr text) tr1), Inl e))
                   else (close_span sp tr1, Inl e))))"

text \<open>
  The generator wrapper is a generator itself: nothing of its body runs before the
  first \<open>__anext__\<close>, and between two items it is suspended at \<open>yield item\<close>, with
  \<open>count\<close> not yet incremented for the item just delivered. (A call with a keyword
  named \<open>self\<close> raises before there is a generator; the consumer meets that error
  here at its first request.)
\<close>

datatype wstate = NotStarted | Suspended nat nat gen | Finished

datatype anext_result = Yielded pyval | StopAsyncIteration | Raised exn

text \<open>One turn of \<open>async for item in method(...)\<close>, with the \<open>finally\<close> clause.\<close>

definition agen_pull :: "nat \<Rightarrow> nat \<Rightarrow> gen \<Rightarrow> tracer \<Rightarrow> wstate \<times> tracer \<times> anext_result" where
  "agen_pull sp count g tr =
     (case g of
        GYield item g' \<Rightarrow> (Suspended sp count g', tr, Yielded item)
      | GReturn \<Rightarrow>
          (Finished, close_span sp (set_attribute sp ''chunk_count'' (SInt (int count)) tr),
           StopAsyncIteration)
      | GRaise e \<Rightarrow>
          (Finished, close_span sp (set_attribute sp ''chunk_count'' (SInt (int count)) tr),
           Raised e))"

definition agen_anext :: "nat \<Rightarrow> heap \<Rightarrow> pymethod \<Rightarrow> receiver \<Rightarrow> pyval list \<Rightarrow> kwargs
    \<Rightarrow> wstate \<Rightarrow> tracer \<Rightarrow> wstate \<times> tracer \<times> anext_result" where
  "agen_anext lim h m self args kws w tr =
     (case w of
        NotStarted \<Rightarrow>
          (if ''self'' \<in> fst ` set kws then (Finished, tr, Raised self_twice) else
           case create_span_context lim h m self args kws of
             Inl e \<Rightarrow> (Finished, tr, Raised e)
           | Inr (cname, mname, span_attributes) \<Rightarrow>
               (let (tr1, sp) = open_span (cname @ ''.'' @ mname) span_attributes tr
                in agen_pull sp 0 (call_gen m self args kws) tr1))
      | Suspended sp count g \<Rightarrow> agen_pull sp (count + 1) g tr
      | Finished \<Rightarrow> (Finished, tr, StopAsyncIteration))"

text \<open>
  \<open>aclose()\<close>: a generator that has not started just ends; one suspended at
  \<open>yield item\<close> gets \<open>GeneratorExit\<close> there, which runs the \<open>finally\<close> clause and
  leaves the \<open>with\<close> block.
\<close>

definition agen_aclose :: "wstate \<Rightarrow> tracer \<Rightarrow> wstate \<times> tracer" where
  "agen_aclose w tr =
     (case w of
        NotStarted \<Rightarrow> (Finished, tr)
      | Suspended sp count g \<Rightarrow>
          (Finished, close_span sp (set_attribute sp ''chunk_count'' (SInt (int count)) tr))
      | Finished \<Rightarrow> (Finished, tr))"

text \<open>
  Two consumers. \<open>consume k\<close> asks for up to \<open>k\<close> items and stops at the first
  \<open>__anext__\<close> that does not yield; \<open>consume_then_close k\<close> then closes the generator.
  The result of \<open>consume\<close> has the items received and, when an \<open>__anext__\<close> did not
  yield, how the generator ended.
\<close>

fun consume :: "nat \<Rightarrow> nat \<Rightarrow> heap \<Rightarrow> pymethod \<Rightarrow> receiver \<Rightarrow> pyval list \<Rightarrow> kwargs
    \<Rightarrow> wstate \<Rightarrow> tracer \<Rightarrow> wstate \<times> tracer \<times> pyval list \<times> anext_result option" where
  "consume 0 lim h m self args kws w tr = (w, tr, [], None)"
| "consume (Suc k) lim h m self args kws w tr =
     (case agen_anext lim h m self args kws w tr of
        (w', tr', Yielded item) \<Rightarrow>
          (case consume k lim h m self args kws w' tr' of
             (w'', tr'', items, r) \<Rightarrow> (w'', tr'', item # items, r))
      | (w', tr', r) \<Rightarrow> (w', tr', [], Some r))"

definition consume_then_close :: "nat \<Rightarrow> nat \<Rightarrow> heap \<Rightarrow> pymethod \<Rightarrow> receiver \<Rightarrow> pyval list
    \<Rightarrow> kwargs \<Rightarrow> tracer \<Rightarrow> wstate \<times> tracer \<times> pyval list \<times> anext_result option" where
  "consume_then_close k lim h m self args kws tr =
     (case consume k lim h m self args kws NotStarted tr of
        (w, tr', items, r) \<Rightarrow>
          (case agen_aclose w tr' of (w', tr'') \<Rightarrow> (w', tr'', items, r)))"

text \<open>The generator that yields the given items and then goes on as \<open>g\<close>.\<close>

primrec yields :: "pyval list \<Rightarrow> gen \<Rightarrow> gen" where
  "yields [] g = g"
| "yields (x # xs) g = GYield x (yields xs g)"

subsection \<open>\<open>trace_method\<close>: the choice of the wrapper\<close>

text \<open>
  A function object found in a class: one defined in a class body, or a wrapper that
  \<open>trace_method\<close> returned around another function. \<open>SyncWrapper (Def m)\<close> is the
  function whose calls are \<open>sync_wrapper lim h m\<close>, and likewise for the other two.
  A wrapper is an \<open>async def\<close> exactly when the source defines it so.
\<close>

datatype func = Def pymethod | AsyncGenWrapper func | AsyncWrapper func | SyncWrapper func

fun iscoroutinefunction :: "func \<Rightarrow> bool" where
  "iscoroutinefunction (Def m) = is_async m"
| "iscoroutinefunction (AsyncWrapper f) = True"
| "iscoroutinefunction f = False"

fun isasyncgenfunction :: "func \<Rightarrow> bool" where
  "isasyncgenfunction (Def m) = is_async_gen m"
| "isasyncgenfunction (AsyncGenWrapper f) = True"
| "isasyncgenfunction f = False"

definition trace_method :: "func \<Rightarrow> func" where
  "trace_method f =
     (if isasyncgenfunction f then AsyncGenWrapper f
      else if iscoroutinefunction f then AsyncWrapper f
      else SyncWrapper f)"

section \<open>Classes and \<open>trace_protocol\<close>\<close>

text \<open>
  An \<open>__init_subclass__\<close> that a class holds in its namespace. \<open>UserInitSubclass\<close> is
  one written in a class body (by a user, or by a library: \<open>typing.Protocol\<close> and
  \<open>typing.Generic\<close> have one); all that matters of it here is whether it calls
  \<open>super().__init_subclass__\<close>; what else it does is outside this program. The other two
  are the hook \<open>trace_protocol\<close> installs, which holds \<open>original_init_subclass\<close>, the
  result of \<open>getattr(cls, "__init_subclass__", None)\<close>: for \<open>TraceObject\<close> the builtin of
  \<open>object\<close>, which does nothing; for \<open>TraceChained original definer cls\<close> the hook
  \<open>original\<close> found in the namespace of the class \<open>definer\<close>, as a method bound to \<open>cls\<close>.
\<close>

datatype hook = UserInitSubclass bool | TraceObject | TraceChained hook string string

text \<open>
  A class attribute: a plain function (\<open>inspect.isfunction\<close> holds of it and of nothing
  else), a \<open>staticmethod\<close> or \<open>classmethod\<close> object around a function, the
  \<open>__init_subclass__\<close> of the class, or anything else (a property, a constant).
\<close>

datatype attr =
    Function func
  | StaticMethod func
  | ClassMethod func
  | InitSubclass hook
  | NonFunction string

text \<open>
  A class: its method resolution order (itself first; single inheritance) and its own
  namespace \<open>vars(cls)\<close> in definition order. Classes are known by name.
\<close>

record pyclass =
  cls_mro :: "string list"
  cls_vars :: "(string \<times> attr) list"

type_synonym classes = "string \<Rightarrow> pyclass option"

text \<open>The \<open>__init_subclass__\<close> in the namespace of a class itself.\<close>

definition own_hook :: "classes \<Rightarrow> string \<Rightarrow> hook option" where
  "own_hook cs c =
     (case cs c of
        None \<Rightarrow> None
      | Some k \<Rightarrow> (case map_of (cls_vars k) ''__init_subclass__'' of
                     Some (InitSubclass hk) \<Rightarrow> Some hk
                   | _ \<Rightarrow> None))"

text \<open>Attribute lookup along a method resolution order.\<close>

fun find_hook :: "classes \<Rightarrow> string list \<Rightarrow> (hook \<times> string) option" where
  "find_hook cs [] = None"
| "find_hook cs (c # mro) =
     (case own_hook cs c of None \<Rightarrow> find_hook cs mro | Some hk \<Rightarrow> Some (hk, c))"



definition startswith_underscore :: "string \<Rightarrow> bool" where
  "startswith_underscore name = (case name of [] \<Rightarrow> False | c # _ \<Rightarrow> c = CHR ''_'')"

text \<open>
  The body of the loop over \<open>vars(cls_child).items()\<close>; \<open>setattr\<close> on a name that the
  namespace has replaces the value in place.
\<close>

definition trace_item :: "string \<times> attr \<Rightarrow> (string \<times> attr) list \<Rightarrow> (string \<times> attr) list" where
  "trace_item item ns =
     (case item of
        (name, Function f) \<Rightarrow>
          (if \<not> startswith_underscore name
           then AList.update name (Function (trace_method f)) ns else ns)
      | (name, _) \<Rightarrow> ns)"

definition trace_vars :: "(string \<times> attr) list \<Rightarrow> (string \<times> attr) list" where
  "trace_vars ns = fold trace_item ns ns"

definition trace_class :: "string \<Rightarrow> classes \<Rightarrow> classes" where
  "trace_class cls_child cs =
     (case cs cls_child of
        None \<Rightarrow> cs
      | Some k \<Rightarrow> cs(cls_child \<mapsto> k\<lparr>cls_vars := trace_vars (cls_vars k)\<rparr>))"

text \<open>The classes after \<open>c\<close> in a method resolution order.\<close>

definition after_class :: "string \<Rightarrow> string list \<Rightarrow> string list" where
  "after_class c mro = tl (dropWhile (\<lambda>d. d \<noteq> c) mro)"

text \<open>
  \<open>run_mro mro cls_child\<close> is the call \<open>super().__init_subclass__()\<close> that looks the hook
  up along \<open>mro\<close> and runs it for \<open>cls_child\<close>; \<open>run_hook hk definer rest cls_child\<close> runs
  the hook \<open>hk\<close>, found in the class \<open>definer\<close> with \<open>rest\<close> after it in the order, for
  \<open>cls_child\<close>. A user's hook goes on along the order if it calls \<open>super()\<close>. The
  installed hook first calls \<open>original_init_subclass(**kwargs)\<close>, a bound method: it
  runs for the class it was bound to, not for \<open>cls_child\<close>, and a \<open>super()\<close> in it goes
  on along the order of that class after the class \<open>d\<close> that defines it (with single
  inheritance, the classes after \<open>d\<close> from \<open>definer\<close> on); then it traces the namespace
  of \<open>cls_child\<close>. It does not call \<open>super()\<close>.
\<close>

function run_mro :: "string list \<Rightarrow> string \<Rightarrow> classes \<Rightarrow> classes"
  and run_hook :: "hook \<Rightarrow> string \<Rightarrow> string list \<Rightarrow> string \<Rightarrow> classes \<Rightarrow> classes" where
  "run_mro [] cls_child cs = cs"
| "run_mro (d # rest) cls_child cs =
     (case own_hook cs d of
        None \<Rightarrow> run_mro rest cls_child cs
      | Some hk \<Rightarrow> run_hook hk d rest cls_child cs)"
| "run_hook (UserInitSubclass calls_super) definer rest cls_child cs =
     (if calls_super then run_mro rest cls_child cs else cs)"
| "run_hook TraceObject definer rest cls_child cs = trace_class cls_child cs"
| "run_hook (TraceChained original d bound) definer rest cls_child cs =
     trace_class cls_child (run_hook original d (after_class d (definer # rest)) bound cs)"
  by pat_completeness auto
termination
proof (relation "measures [\<lambda>x. case x of Inl (mro, _) \<Rightarrow> length mro | Inr (_, _, rest, _) \<Rightarrow> length rest,
                          \<lambda>x. case x of Inl _ \<Rightarrow> 0 | Inr (hk, _) \<Rightarrow> Suc (size hk)]")
  show "wf (measures [\<lambda>x. case x of Inl (mro, _) \<Rightarrow> length mro | Inr (_, _, rest, _) \<Rightarrow> length rest,
                      \<lambda>x. case x of Inl _ \<Rightarrow> 0 | Inr (hk, _) \<Rightarrow> Suc (size hk)])"
    by simp
next
  fix original :: hook and d definer :: string and rest :: "string list"
    and bound cls_child :: string and cs :: classes
  have "length (after_class d (definer # rest)) \<le> length rest"
    using length_dropWhile_le [of "\<lambda>c. c \<noteq> d" "definer # rest"]
    by (simp add: after_class_def del: dropWhile.simps)
  then show "(Inr (original, d, after_class d (definer # rest), bound, cs),
              Inr (TraceChained original d bound, definer, rest, cls_child, cs))
        \<in> measures [\<lambda>x. case x of Inl (mro, _) \<Rightarrow> length mro | Inr (_, _, rest, _) \<Rightarrow> length rest,
                     \<lambda>x. case x of Inl _ \<Rightarrow> 0 | Inr (hk, _) \<Rightarrow> Suc (size hk)]"
    by auto
qed auto

text \<open>
  \<open>trace_protocol\<close>: \<open>getattr\<close> finds the first \<open>__init_subclass__\<close> along the order of
  the class and binds it to the class; the new hook is stored in its namespace.
\<close>

definition trace_protocol :: "string \<Rightarrow> classes \<Rightarrow> classes" where
  "trace_protocol cls cs =
     (case cs cls of
        None \<Rightarrow> cs
      | Some k \<Rightarrow>
          (let hk = (case find_hook cs (cls_mro k) of
                       None \<Rightarrow> TraceObject
                     | Some (original, definer) \<Rightarrow> TraceChained original definer cls)
           in cs(cls \<mapsto> k\<lparr>cls_vars :=
                  AList.update ''__init_subclass__'' (InitSubclass hk) (cls_vars k)\<rparr>)))"

text \<open>
  The class statement \<open>class name(parent): ...\<close> with the namespace \<open>ns\<close> of its body
  (an \<open>__init_subclass__\<close> written there is in it): the class is created, then the
  \<open>__init_subclass__\<close> found from the parent on is run for it. A class with no parent
  named derives from \<open>object\<close>.
\<close>

definition define_class :: "string \<Rightarrow> string option \<Rightarrow> (string \<times> attr) list \<Rightarrow> classes \<Rightarrow> classes" where
  "define_class name parent ns cs =
     (let pmro = (case parent of
                    None \<Rightarrow> []
                  | Some p \<Rightarrow> (case cs p of None \<Rightarrow> [] | Some k \<Rightarrow> cls_mro k));
          cs1 = cs(name \<mapsto> \<lparr>cls_mro = name # pmro, cls_vars = ns\<rparr>)
      in run_mro pmro name cs1)"

section \<open>Notions used to state the properties\<close>


text \<open>A call that returns normally.\<close>

fun returns :: "exn + 'a \<Rightarrow> bool" where
  "returns (Inr y) = True"
| "returns (Inl e) = False"





text \<open>The namespace of a class; empty for a name that is no class.\<close>

definition vars_of :: "classes \<Rightarrow> string \<Rightarrow> (string \<times> attr) list" where
  "vars_of cs c = (case cs c of None \<Rightarrow> [] | Some k \<Rightarrow> cls_vars k)"

text \<open>
  What the subclass hook is to make of an attribute: a plain function with a public
  name is replaced by its traced wrapper, anything else is kept.
\<close>

definition traced_attr :: "string \<Rightarrow> attr \<Rightarrow> attr" where
  "traced_attr name a =
     (case a of
        Function f \<Rightarrow> if startswith_underscore name then a else Function (trace_method f)
      | _ \<Rightarrow> a)"






section \<open>Example inputs\<close>

text \<open>The list \<open>l = []; l.append(l)\<close>, at address 0.\<close>

definition self_list_heap :: heap where
  "self_list_heap = (\<lambda>a. CList [])(0 := CList [PRef 0])"


text \<open>A store with no container of interest.\<close>

definition empty_heap :: heap where
  "empty_heap = (\<lambda>a. CList [])"

text \<open>The method \<open>def add(self, a, b): return a + b\<close>.\<close>

definition add_body :: "receiver \<Rightarrow> pyval list \<Rightarrow> kwargs \<Rightarrow> exn + pyval" where
  "add_body self args kws =
     (case args of
        [PInt a, PInt b] \<Rightarrow> Inr (PInt (a + b))
      | _ \<Rightarrow> Inl (Exn ''TypeError'' True (Inr ''unsupported operands'')))"

definition add_method :: pymethod where
  "add_method = \<lparr>meth_name = ''add'', meth_params = [''self'', ''a'', ''b''],
     meth_body = SyncBody add_body\<rparr>"

text \<open>The method \<open>def echo(self, x): return x\<close>.\<close>

definition echo_body :: "receiver \<Rightarrow> pyval list \<Rightarrow> kwargs \<Rightarrow> exn + pyval" where
  "echo_body self args kws =
     (case args of
        [x] \<Rightarrow> Inr x
      | _ \<Rightarrow> Inl (Exn ''TypeError'' True (Inr ''echo() takes 2 positional arguments'')))"

definition echo_method :: pymethod where
  "echo_method = \<lparr>meth_name = ''echo'', meth_params = [''self'', ''x''],
     meth_body = SyncBody echo_body\<rparr>"

text \<open>
  Three errors: an ordinary one with the message \<open>not found\<close>; a cancellation, which
  is a \<open>BaseException\<close> but no \<open>Exception\<close>; and one whose \<open>__str__\<close> raises.
\<close>

definition not_found :: exn where
  "not_found = Exn ''LookupError'' True (Inr ''not found'')"

definition cancelled :: exn where
  "cancelled = Exn ''CancelledError'' False (Inr [])"

definition unprintable :: exn where
  "unprintable = Exn ''WeirdError'' True (Inl (Exn ''ValueError'' True (Inr ''no text'')))"

text \<open>
  Methods that raise: \<open>async def fetch(self, key)\<close> raising the given error, and
  \<open>def check(self, x)\<close> raising the first of the three.
\<close>

definition raising_body :: "exn \<Rightarrow> receiver \<Rightarrow> pyval list \<Rightarrow> kwargs \<Rightarrow> exn + pyval" where
  "raising_body e self args kws = Inl e"

definition raising_method :: "exn \<Rightarrow> pymethod" where
  "raising_method e = \<lparr>meth_name = ''fetch'', meth_params = [''self'', ''key''],
     meth_body = AsyncBody (raising_body e)\<rparr>"

definition failing_method :: pymethod where
  "failing_method = \<lparr>meth_name = ''check'', meth_params = [''self'', ''x''],
     meth_body = SyncBody (raising_body not_found)\<rparr>"

text \<open>An asynchronous generator method that yields three chunks and finishes.\<close>

definition stream_method :: pymethod where
  "stream_method = \<lparr>meth_name = ''stream'', meth_params = [''self''],
     meth_body = AsyncGenBody (\<lambda>self args kws. yields [PStr ''a'', PStr ''b'', PStr ''c''] GReturn)\<rparr>"


text \<open>
  A stream that raises after two chunks; an instance of a subclass of \<open>str\<close> whose
  \<open>__repr__\<close> raises; and the integer \<open>10 ** 4300\<close>, of 4301 digits.
\<close>

definition broken_stream_method :: pymethod where
  "broken_stream_method = \<lparr>meth_name = ''answer'', meth_params = [''self'', ''prompt''],
     meth_body = AsyncGenBody (\<lambda>self args kws. yields [PStr ''a'', PStr ''b''] (GRaise not_found))\<rparr>"

definition no_repr :: pyval where
  "no_repr = PSubclass (Inl (Exn ''RuntimeError'' True (Inr ''no repr'')))"

definition big_int :: pyval where
  "big_int = PInt (10 ^ int_max_str_digits)"

text \<open>
  A class \<open>A\<close> with one public method, and the class bodies of \<open>class B(A)\<close>, with a
  public method, a private one and a constant, and of \<open>class C(B)\<close>, with a public
  method.
\<close>

definition base_classes :: classes where
  "base_classes = Map.empty(''A'' \<mapsto>
     \<lparr>cls_mro = [''A''], cls_vars = [(''ping'', Function (Def echo_method))]\<rparr>)"

definition ns_B :: "(string \<times> attr) list" where
  "ns_B = [(''run'', Function (Def echo_method)), (''_helper'', Function (Def add_method)),
           (''limit'', NonFunction ''10'')]"


section \<open>Properties of \<open>serialize_value\<close>\<close>













lemma self_list_never:
  "serialize_value lim self_list_heap (PRef 0) = Inl RecursionError"
  by (induction lim) (simp_all add: self_list_heap_def)







section \<open>Properties of the wrappers\<close>

lemma upd_span_new: "upd_span (length tr) f (tr @ [s]) = tr @ [f s]"
  by (simp add: upd_span_def)

lemma close_span_new: "close_span (length tr) (tr @ [s]) = tr @ [s\<lparr>span_closed := True\<rparr>]"
  by (simp add: close_span_def upd_span_new)

lemma set_attribute_new:
  "set_attribute (length tr) k v (tr @ [s]) = tr @ [s\<lparr>span_attrs := AList.update k v (span_attrs s)\<rparr>]"
  by (simp add: set_attribute_def upd_span_new)

lemma positional_args_returns:
  "returns (positional_args lim h pn i args acc)
     \<longleftrightarrow> list_all (\<lambda>a. returns (serialize_value lim h a)) args"
proof (induction args arbitrary: i acc)
  case Nil
  show ?case by simp
next
  case (Cons a args)
  show ?case
    by (cases "serialize_value lim h a") (simp_all add: Let_def Cons.IH)
qed

lemma keyword_args_returns:
  "returns (keyword_args lim h kws acc)
     \<longleftrightarrow> list_all (\<lambda>a. returns (serialize_value lim h a)) (map snd kws)"
proof (induction kws arbitrary: acc)
  case Nil
  show ?case by simp
next
  case (Cons kv kws)
  obtain k v where kv: "kv = (k, v)" by (cases kv)
  show ?case
    by (cases "serialize_value lim h v") (simp_all add: kv Cons.IH)
qed

lemma combine_args_returns:
  "returns (combine_args lim h m args kws)
     \<longleftrightarrow> list_all (\<lambda>a. returns (serialize_value lim h a)) (args @ map snd kws)"
proof (cases "positional_args lim h (drop 1 (meth_params m)) 0 args []")
  case (Inl e)
  then have "\<not> returns (positional_args lim h (drop 1 (meth_params m)) 0 args [])" by simp
  then have "\<not> list_all (\<lambda>a. returns (serialize_value lim h a)) args"
    by (simp add: positional_args_returns)
  then show ?thesis using Inl by (simp add: combine_args_def)
next
  case (Inr ca)
  then have "returns (positional_args lim h (drop 1 (meth_params m)) 0 args [])" by simp
  then have "list_all (\<lambda>a. returns (serialize_value lim h a)) args"
    by (simp add: positional_args_returns)
  then show ?thesis using Inr by (simp add: combine_args_def keyword_args_returns)
qed

text \<open>
  When \<open>create_span_context\<close> returns: \<open>serialize_value\<close> raises on no argument, and
  \<open>str\<close> of the argument mapping raises nothing.
\<close>

lemma create_span_context_returns:
  "returns (create_span_context lim h m self args kws)
     \<longleftrightarrow> list_all (\<lambda>a. returns (serialize_value lim h a)) (args @ map snd kws)
        \<and> (\<forall>ca. combine_args lim h m args kws = Inr ca \<longrightarrow> repr_error (SDict ca) = None)"
proof (cases "combine_args lim h m args kws")
  case (Inl e)
  then have "\<not> returns (combine_args lim h m args kws)" by simp
  then have "\<not> list_all (\<lambda>a. returns (serialize_value lim h a)) (args @ map snd kws)"
    by (simp add: combine_args_returns)
  then show ?thesis using Inl by (simp add: create_span_context_def)
next
  case (Inr ca)
  then have "returns (combine_args lim h m args kws)" by simp
  then have "list_all (\<lambda>a. returns (serialize_value lim h a)) (args @ map snd kws)"
    by (simp add: combine_args_returns)
  then show ?thesis using Inr
    by (cases "repr_error (SDict ca)") (simp_all add: create_span_context_def)
qed

lemma create_span_context_names:
  "returns (create_span_context lim h m self args kws) \<Longrightarrow>
   \<exists>attrs. create_span_context lim h m self args kws
             = Inr (class_name self, meth_name m, attrs)"
  by (auto simp: create_span_context_def split: sum.splits option.splits)

lemma create_span_context_shape:
  assumes "create_span_context lim h m self args kws = Inr (cn, mn, attrs)"
  shows "cn = class_name self" and "mn = meth_name m"
    and "map_of attrs ''error'' = None"
    and "map_of attrs ''output'' = None"
    and "map_of attrs ''chunk_count'' = None"
    and "map_of attrs ''__method__'' = Some (SStr (meth_name m))"
    and "map_of attrs ''__class__'' = Some (SStr (class_name self))"
    and "map_of attrs ''__type__'' = Some (SStr (span_type m))"
    and "map_of attrs ''__autotraced__'' = Some (SBool True)"
  using assms by (auto simp: create_span_context_def split: sum.splits option.splits)

lemma agen_anext_suspended_yield:
  "agen_anext lim h m self args kws (Suspended sp c (GYield x g)) tr
     = (Suspended sp (Suc c) g, tr, Yielded x)"
  by (simp add: agen_anext_def agen_pull_def)

lemma consume_suspended_part:
  "k \<le> length items \<Longrightarrow>
   consume k lim h m self args kws (Suspended sp c (yields items g)) tr
     = (Suspended sp (c + k) (yields (drop k items) g), tr, take k items, None)"
proof (induction k arbitrary: c items)
  case 0
  show ?case by simp
next
  case (Suc k)
  then obtain x xs where items: "items = x # xs" by (cases items) auto
  with Suc.prems have "k \<le> length xs" by simp
  from Suc.IH [OF this, of "Suc c"] show ?case
    by (simp add: items agen_anext_suspended_yield)
qed

lemma consume_suspended_end:
  assumes "g = GReturn \<or> g = GRaise e" and "length items < k"
  shows "consume k lim h m self args kws (Suspended sp c (yields items g)) tr
     = (Finished,
        close_span sp (set_attribute sp ''chunk_count'' (SInt (int (c + length items + 1))) tr),
        items, Some (if g = GReturn then StopAsyncIteration else Raised e))"
  using assms(2)
proof (induction items arbitrary: c k)
  case Nil
  then obtain k' where k: "k = Suc k'" by (cases k) auto
  from assms(1) show ?case
    by (auto simp: k agen_anext_def agen_pull_def)
next
  case (Cons x xs)
  then obtain k' where k: "k = Suc k'" by (cases k) auto
  with Cons.prems have "length xs < k'" by simp
  from Cons.IH [OF this, of "Suc c"] show ?case
    by (simp add: k agen_anext_suspended_yield)
qed

lemma agen_anext_first:
  assumes "create_span_context lim h m self args kws = Inr (cn, mn, attrs)"
    and "''self'' \<notin> fst ` set kws"
  shows "agen_anext lim h m self args kws NotStarted tr
     = agen_pull (length tr) 0 (call_gen m self args kws)
         (tr @ [\<lparr>span_name = cn @ ''.'' @ mn, span_attrs = attrs, span_closed = False\<rparr>])"
  using assms(2) by (simp add: agen_anext_def assms(1) open_span_def)

lemma chunk_count_new:
  assumes "map_of attrs ''chunk_count'' = None"
  shows "close_span (length tr) (set_attribute (length tr) ''chunk_count'' v
           (tr @ [\<lparr>span_name = n, span_attrs = attrs, span_closed = False\<rparr>]))
     = tr @ [\<lparr>span_name = n, span_attrs = attrs @ [(''chunk_count'', v)], span_closed = True\<rparr>]"
proof -
  from assms have "AList.update ''chunk_count'' v attrs = attrs @ [(''chunk_count'', v)]"
    by (induction attrs) (auto split: if_splits)
  then show ?thesis by (simp add: set_attribute_new close_span_new)
qed

lemma consume_then_close_early:
  assumes c: "create_span_context lim h m self args kws = Inr (cn, mn, attrs)"
    and s: "''self'' \<notin> fst ` set kws"
    and g: "call_gen m self args kws = yields items g"
    and k: "0 < k" "k \<le> length items"
  shows "consume_then_close k lim h m self args kws tr
     = (Finished,
        tr @ [\<lparr>span_name = cn @ ''.'' @ mn,
               span_attrs = attrs @ [(''chunk_count'', SInt (int k - 1))],
               span_closed = True\<rparr>],
        take k items, None)"
proof -
  from k obtain k' where k': "k = Suc k'" by (cases k) auto
  from k obtain x xs where items: "items = x # xs" by (cases items) auto
  let ?tr1 = "tr @ [\<lparr>span_name = cn @ ''.'' @ mn, span_attrs = attrs, span_closed = False\<rparr>]"
  have 1: "agen_anext lim h m self args kws NotStarted tr
      = (Suspended (length tr) 0 (yields xs g), ?tr1, Yielded x)"
    by (simp add: agen_anext_first [OF c s] g items agen_pull_def)
  have "k' \<le> length xs" using k k' items by simp
  from consume_suspended_part [OF this, of lim h m self args kws "length tr" 0 g ?tr1]
  have 2: "consume k' lim h m self args kws (Suspended (length tr) 0 (yields xs g)) ?tr1
      = (Suspended (length tr) k' (yields (drop k' xs) g), ?tr1, take k' xs, None)" by simp
  have m: "map_of attrs ''chunk_count'' = None" using c by (rule create_span_context_shape)
  show ?thesis using 2
    by (simp add: consume_then_close_def k' 1 items agen_aclose_def chunk_count_new [OF m])
qed

text \<open>Reading a stream of finitely many items to its end.\<close>

lemma consume_to_end:
  assumes c: "create_span_context lim h m self args kws = Inr (cn, mn, attrs)"
    and s: "''self'' \<notin> fst ` set kws"
    and g: "call_gen m self args kws = yields items ge"
    and e: "ge = GReturn \<or> ge = GRaise e"
    and k: "length items < k"
  shows "consume k lim h m self args kws NotStarted tr =
     (Finished,
      tr @ [\<lparr>span_name = cn @ ''.'' @ mn,
             span_attrs = attrs @ [(''chunk_count'', SInt (int (length items)))],
             span_closed = True\<rparr>],
      items, Some (if ge = GReturn then StopAsyncIteration else Raised e))"
proof -
  from k obtain k' where k': "k = Suc k'" by (cases k) auto
  let ?tr1 = "tr @ [\<lparr>span_name = cn @ ''.'' @ mn, span_attrs = attrs, span_closed = False\<rparr>]"
  have m: "map_of attrs ''chunk_count'' = None" using c by (rule create_span_context_shape)
  show ?thesis
  proof (cases items)
    case Nil
    have "agen_anext lim h m self args kws NotStarted tr
      = (Finished, tr @ [\<lparr>span_name = cn @ ''.'' @ mn,
                   span_attrs = attrs @ [(''chunk_count'', SInt 0)],
                   span_closed = True\<rparr>],
         if ge = GReturn then StopAsyncIteration else Raised e)"
      using e by (auto simp: agen_anext_first [OF c s] g Nil agen_pull_def chunk_count_new [OF m])
    then show ?thesis by (simp add: k' Nil)
  next
    case (Cons x xs)
    have 1: "agen_anext lim h m self args kws NotStarted tr
        = (Suspended (length tr) 0 (yields xs ge), ?tr1, Yielded x)"
      by (simp add: agen_anext_first [OF c s] g Cons agen_pull_def)
    have "length xs < k'" using k k' Cons by simp
    from consume_suspended_end [OF e this, of lim h m self args kws "length tr" 0 ?tr1]
    have "consume k' lim h m self args kws (Suspended (length tr) 0 (yields xs ge)) ?tr1
        = (Finished, tr @ [\<lparr>span_name = cn @ ''.'' @ mn,
                   span_attrs = attrs @ [(''chunk_count'', SInt (int (length xs + 1)))],
                   span_closed = True\<rparr>], xs,
           Some (if ge = GReturn then StopAsyncIteration else Raised e))"
      by (simp add: chunk_count_new [OF m])
    then show ?thesis by (simp add: k' Cons 1)
  qed
qed

lemma create_span_context_self_list:
  "create_span_context lim self_list_heap m self [PRef 0] kws = Inl RecursionError"
  by (simp add: create_span_context_def combine_args_def self_list_never)

lemma str_int_raises_small: "\<bar>i\<bar> < 10 \<Longrightarrow> \<not> str_int_raises i"
proof -
  assume "\<bar>i\<bar> < 10"
  then have "nat \<bar>i\<bar> < 10" by simp
  then have "digits (nat \<bar>i\<bar>) = [char_of (48 + nat \<bar>i\<bar>)]" by (subst digits.simps) simp
  then show ?thesis by (simp add: str_int_raises_def int_max_str_digits_def)
qed

lemma length_digits_power: "length (digits (10 ^ k)) = Suc k"
proof (induction k)
  case 0
  show ?case by (subst digits.simps) simp
next
  case (Suc k)
  have "\<not> (10::nat) ^ Suc k < 10" by simp
  then have "length (digits (10 ^ Suc k)) = Suc (length (digits (10 ^ Suc k div 10)))"
    by (subst digits.simps) simp
  with Suc show ?case by simp
qed

lemma nat_power10: "nat ((10::int) ^ k) = 10 ^ k"
  by (simp add: nat_power_eq)

lemma str_int_raises_big: "str_int_raises (10 ^ int_max_str_digits)"
  by (simp add: str_int_raises_def nat_power10 length_digits_power)
section \<open>Properties of the subclass hook\<close>

lemma map_of_trace_item:
  "map_of (trace_item (name, a) ns) n =
     (if n = name \<and> (\<exists>f. a = Function f) \<and> \<not> startswith_underscore name
      then Some (traced_attr name a) else map_of ns n)"
  by (cases a) (auto simp: trace_item_def traced_attr_def update_conv')



lemma map_of_fold_trace_item_private:
  "startswith_underscore n \<Longrightarrow> map_of (fold trace_item items ns) n = map_of ns n"
proof (induction items arbitrary: ns)
  case Nil
  show ?case by simp
next
  case (Cons x xs)
  obtain name a where x: "x = (name, a)" by (cases x)
  from Cons show ?case by (auto simp: x map_of_trace_item)
qed

lemma map_of_trace_vars_private:
  "startswith_underscore n \<Longrightarrow> map_of (trace_vars ns) n = map_of ns n"
  by (simp add: trace_vars_def map_of_fold_trace_item_private)







lemma vars_of_trace_class:
  "vars_of (trace_class c cs) d = (if d = c then trace_vars (vars_of cs c) else vars_of cs d)"
  by (auto simp: trace_class_def vars_of_def trace_vars_def split: option.splits)


lemma trace_class_self:
  "cs c = Some k \<Longrightarrow> trace_class c cs c = Some (k\<lparr>cls_vars := trace_vars (cls_vars k)\<rparr>)"
  by (simp add: trace_class_def)





lemma run_private:
  "startswith_underscore n \<Longrightarrow>
     map_of (vars_of (run_mro mro c cs) x) n = map_of (vars_of cs x) n"
  "startswith_underscore n \<Longrightarrow>
     map_of (vars_of (run_hook hk definer rest c cs) x) n = map_of (vars_of cs x) n"
  by (induction mro c cs and hk definer rest c cs rule: run_mro_run_hook.induct)
    (auto simp: vars_of_trace_class map_of_trace_vars_private split: option.splits)













lemma trace_method_examples:
  "trace_method (Def echo_method) = SyncWrapper (Def echo_method)"
  "trace_method (Def add_method) = SyncWrapper (Def add_method)"
  by (simp_all add: trace_method_def is_async_def is_async_gen_def echo_method_def add_method_def)
subsection \<open>Claim C5\<close>




subsection \<open>Claim C9\<close>


subsection \<open>Claim C1\<close>

text \<open>
  C1, as the code has it: for a synchronous method \<open>f\<close>, a receiver and arguments on
  which \<open>f\<close> returns a value, with no keyword named \<open>self\<close> (the first parameter of the
  wrapper is named \<open>self\<close>, so the wrapped call with such a keyword raises \<open>TypeError\<close>),
  the wrapper chosen for \<open>f\<close> is the synchronous one; it returns exactly when \<open>create_span_context\<close> returns on the arguments
  (\<open>serialize_value\<close> raises on none of them and \<open>str\<close> of the argument mapping raises
  nothing) and \<open>serialize_value\<close> returns on the value; and then it returns that same
  value. The backend is the recorder, which does not raise.
\<close>

theorem sync_wrapper_returns_same:
  assumes "meth_body m = SyncBody f" and "f self args kws = Inr v"
    and "''self'' \<notin> fst ` set kws"
  shows "trace_method (Def m) = SyncWrapper (Def m)
     \<and> (returns (snd (sync_wrapper lim h m self args kws tr)) \<longleftrightarrow>
          returns (create_span_context lim h m self args kws)
          \<and> returns (serialize_value lim h v))
     \<and> (returns (snd (sync_wrapper lim h m self args kws tr)) \<longrightarrow>
          snd (sync_wrapper lim h m self args kws tr) = Inr v)"
proof -
  have t: "trace_method (Def m) = SyncWrapper (Def m)"
    by (simp add: trace_method_def is_async_def is_async_gen_def assms(1))
  have r: "call_method m self args kws = Inr v"
    by (simp add: call_method_def assms(1,2))
  show ?thesis
  proof (cases "create_span_context lim h m self args kws")
    case (Inl e)
    then show ?thesis using t assms(3) by (simp add: sync_wrapper_def)
  next
    case (Inr ctx)
    obtain cn mn attrs where ctx: "ctx = (cn, mn, attrs)" by (cases ctx)
    show ?thesis
      using t assms(3)
      by (cases "serialize_value lim h v")
        (simp_all add: sync_wrapper_def Inr ctx r open_span_def)
  qed
qed

text \<open>
  C1 as stated fails. \<open>echo\<close> returns a list that contains itself as it got it, but
  the wrapped \<open>echo\<close> raises \<open>RecursionError\<close> while it serializes the argument, before
  it opens a span or calls \<open>echo\<close>. And \<open>echo\<close> returns a string whose \<open>__repr__\<close> raises,
  and the integer \<open>10 ** 4300\<close>: \<open>serialize_value\<close> returns them too, but
  \<open>str(combined_args)\<close> raises.
\<close>

theorem sync_wrapper_returns_same_counterexample:
  "call_method echo_method (Receiver ''X'' 0) [PRef 0] [] = Inr (PRef 0) \<and>
   (\<forall>lim tr. sync_wrapper lim self_list_heap echo_method (Receiver ''X'' 0) [PRef 0] [] tr
       = (tr, Inl RecursionError)) \<and>
   call_method echo_method (Receiver ''X'' 0) [no_repr] [] = Inr no_repr \<and>
   (\<forall>lim h. serialize_value (Suc lim) h no_repr
       = Inr (SSubclass (Inl (Exn ''RuntimeError'' True (Inr ''no repr''))))) \<and>
   (\<forall>lim h tr. sync_wrapper (Suc lim) h echo_method (Receiver ''X'' 0) [no_repr] [] tr
       = (tr, Inl (Exn ''RuntimeError'' True (Inr ''no repr'')))) \<and>
   call_method echo_method (Receiver ''X'' 0) [big_int] [] = Inr big_int \<and>
   (\<forall>lim h. returns (serialize_value (Suc lim) h big_int)) \<and>
   (\<forall>lim h tr. sync_wrapper (Suc lim) h echo_method (Receiver ''X'' 0) [big_int] [] tr
       = (tr, Inl int_too_long))"
proof -
  have 1: "call_method echo_method (Receiver ''X'' 0) [PRef 0] [] = Inr (PRef 0)"
    by (simp add: call_method_def echo_method_def echo_body_def)
  have 2: "\<forall>lim tr. sync_wrapper lim self_list_heap echo_method (Receiver ''X'' 0) [PRef 0] [] tr
       = (tr, Inl RecursionError)"
    by (simp add: sync_wrapper_def create_span_context_self_list)
  have 3: "call_method echo_method (Receiver ''X'' 0) [no_repr] [] = Inr no_repr"
    by (simp add: call_method_def echo_method_def echo_body_def)
  have 4: "\<forall>lim h. serialize_value (Suc lim) h no_repr
       = Inr (SSubclass (Inl (Exn ''RuntimeError'' True (Inr ''no repr''))))"
    by (simp add: no_repr_def)
  have "\<forall>lim h. create_span_context (Suc lim) h echo_method (Receiver ''X'' 0) [no_repr] []
       = Inl (Exn ''RuntimeError'' True (Inr ''no repr''))"
    by (simp add: create_span_context_def combine_args_def echo_method_def no_repr_def)
  then have 5: "\<forall>lim h tr. sync_wrapper (Suc lim) h echo_method (Receiver ''X'' 0) [no_repr] [] tr
       = (tr, Inl (Exn ''RuntimeError'' True (Inr ''no repr'')))"
    by (simp add: sync_wrapper_def)
  have 6: "call_method echo_method (Receiver ''X'' 0) [big_int] [] = Inr big_int"
    by (simp add: call_method_def echo_method_def echo_body_def)
  have 7: "\<forall>lim h. returns (serialize_value (Suc lim) h big_int)"
    by (simp add: big_int_def)
  have "\<forall>lim h. create_span_context (Suc lim) h echo_method (Receiver ''X'' 0) [big_int] []
       = Inl int_too_long"
    by (simp add: create_span_context_def combine_args_def echo_method_def big_int_def
        str_int_raises_big)
  then have 8: "\<forall>lim h tr. sync_wrapper (Suc lim) h echo_method (Receiver ''X'' 0) [big_int] [] tr
       = (tr, Inl int_too_long)"
    by (simp add: sync_wrapper_def)
  from 1 2 3 4 5 6 7 8 show ?thesis by simp
qed

text \<open>The amended C1 at \<open>add(2, 3)\<close>.\<close>

theorem sync_wrapper_returns_same_witness:
  "meth_body add_method = SyncBody add_body \<and>
   add_body (Receiver ''X'' 0) [PInt 2, PInt 3] [] = Inr (PInt 5) \<and>
   ''self'' \<notin> fst ` set ([] :: kwargs) \<and>
   returns (create_span_context 1 empty_heap add_method (Receiver ''X'' 0) [PInt 2, PInt 3] []) \<and>
   returns (serialize_value 1 empty_heap (PInt 5)) \<and>
   trace_method (Def add_method) = SyncWrapper (Def add_method) \<and>
   snd (sync_wrapper 1 empty_heap add_method (Receiver ''X'' 0) [PInt 2, PInt 3] [] []) = Inr (PInt 5)"
proof -
  have 1: "meth_body add_method = SyncBody add_body" by (simp add: add_method_def)
  have 2: "add_body (Receiver ''X'' 0) [PInt 2, PInt 3] [] = Inr (PInt 5)"
    by (simp add: add_body_def)
  have 3: "''self'' \<notin> fst ` set ([] :: kwargs)" by simp
  have 4: "returns (create_span_context 1 empty_heap add_method (Receiver ''X'' 0) [PInt 2, PInt 3] [])"
    by (simp add: create_span_context_returns combine_args_def add_method_def
        str_int_raises_def int_max_str_digits_def digits.simps)
  have 5: "returns (serialize_value 1 empty_heap (PInt 5))" by simp
  from sync_wrapper_returns_same [where tr = "[]" and f = add_body and m = add_method
      and lim = 1 and h = empty_heap, OF 1 2 3] 1 2 3 4 5
  show ?thesis by blast
qed

subsection \<open>Claim C2\<close>

text \<open>
  C2, as the code has it. Let \<open>create_span_context\<close> return on the arguments, with no
  keyword named \<open>self\<close>, and let the body raise an error \<open>e\<close>. The synchronous wrapper
  closes its span with no \<open>error\<close> attribute and raises \<open>e\<close>. The asynchronous wrapper,
  when \<open>e\<close> is an \<open>Exception\<close>, sets \<open>error\<close> to \<open>str(e)\<close> and raises \<open>e\<close> if \<open>str(e)\<close>
  returns, and raises the error of \<open>str(e)\<close>, with no \<open>error\<close> attribute, if it does
  not; when \<open>e\<close> is no \<open>Exception\<close> it raises \<open>e\<close> with no \<open>error\<close> attribute. The
  generator wrapper, when the underlying generator raises \<open>e\<close> after some items,
  delivers these items, then closes its span with \<open>chunk_count\<close> their number and no
  \<open>error\<close> attribute, and raises \<open>e\<close>. The backend is the recorder, which does not
  raise.
\<close>

theorem wrapper_reraises:
  assumes "returns (create_span_context lim h m self args kws)"
    and "''self'' \<notin> fst ` set kws"
  shows "\<exists>attrs. create_span_context lim h m self args kws = Inr (class_name self, meth_name m, attrs)
     \<and> map_of attrs ''error'' = None
     \<and> (\<forall>f e. meth_body m = SyncBody f \<and> f self args kws = Inl e \<longrightarrow>
          trace_method (Def m) = SyncWrapper (Def m) \<and>
          sync_wrapper lim h m self args kws tr =
            (tr @ [\<lparr>span_name = class_name self @ ''.'' @ meth_name m, span_attrs = attrs,
                    span_closed = True\<rparr>], Inl e))
     \<and> (\<forall>f e. meth_body m = AsyncBody f \<and> f self args kws = Inl e \<longrightarrow>
          trace_method (Def m) = AsyncWrapper (Def m) \<and>
          (\<forall>text. is_Exception e \<and> exn_str e = Inr text \<longrightarrow>
             async_wrapper lim h m self args kws tr =
               (tr @ [\<lparr>span_name = class_name self @ ''.'' @ meth_name m,
                       span_attrs = attrs @ [(''error'', SStr text)],
                       span_closed = True\<rparr>], Inl e)) \<and>
          (\<forall>e'. is_Exception e \<and> exn_str e = Inl e' \<longrightarrow>
             async_wrapper lim h m self args kws tr =
               (tr @ [\<lparr>span_name = class_name self @ ''.'' @ meth_name m, span_attrs = attrs,
                       span_closed = True\<rparr>], Inl e')) \<and>
          (\<not> is_Exception e \<longrightarrow>
             async_wrapper lim h m self args kws tr =
               (tr @ [\<lparr>span_name = class_name self @ ''.'' @ meth_name m, span_attrs = attrs,
                       span_closed = True\<rparr>], Inl e)))
     \<and> (\<forall>g items e. meth_body m = AsyncGenBody g \<and> g self args kws = yields items (GRaise e) \<longrightarrow>
          trace_method (Def m) = AsyncGenWrapper (Def m) \<and>
          consume (Suc (length items)) lim h m self args kws NotStarted tr =
            (Finished,
             tr @ [\<lparr>span_name = class_name self @ ''.'' @ meth_name m,
                    span_attrs = attrs @ [(''chunk_count'', SInt (int (length items)))],
                    span_closed = True\<rparr>],
             items, Some (Raised e)))"
proof -
  from create_span_context_names [OF assms(1)] obtain attrs where
    c: "create_span_context lim h m self args kws = Inr (class_name self, meth_name m, attrs)"
    by blast
  have e: "map_of attrs ''error'' = None" using c by (rule create_span_context_shape)
  then have u: "\<And>x. AList.update ''error'' x attrs = attrs @ [(''error'', x)]"
    by (induction attrs) (auto split: if_splits)
  have s: "\<forall>f e. meth_body m = SyncBody f \<and> f self args kws = Inl e \<longrightarrow>
          trace_method (Def m) = SyncWrapper (Def m) \<and>
          sync_wrapper lim h m self args kws tr =
            (tr @ [\<lparr>span_name = class_name self @ ''.'' @ meth_name m, span_attrs = attrs,
                    span_closed = True\<rparr>], Inl e)"
    using assms(2)
    by (simp add: sync_wrapper_def c open_span_def close_span_new call_method_def
          trace_method_def is_async_def is_async_gen_def)
  have a: "\<forall>f e. meth_body m = AsyncBody f \<and> f self args kws = Inl e \<longrightarrow>
          trace_method (Def m) = AsyncWrapper (Def m) \<and>
          (\<forall>text. is_Exception e \<and> exn_str e = Inr text \<longrightarrow>
             async_wrapper lim h m self args kws tr =
               (tr @ [\<lparr>span_name = class_name self @ ''.'' @ meth_name m,
                       span_attrs = attrs @ [(''error'', SStr text)],
                       span_closed = True\<rparr>], Inl e)) \<and>
          (\<forall>e'. is_Exception e \<and> exn_str e = Inl e' \<longrightarrow>
             async_wrapper lim h m self args kws tr =
               (tr @ [\<lparr>span_name = class_name self @ ''.'' @ meth_name m, span_attrs = attrs,
                       span_closed = True\<rparr>], Inl e')) \<and>
          (\<not> is_Exception e \<longrightarrow>
             async_wrapper lim h m self args kws tr =
               (tr @ [\<lparr>span_name = class_name self @ ''.'' @ meth_name m, span_attrs = attrs,
                       span_closed = True\<rparr>], Inl e))"
    using assms(2)
    by (simp add: async_wrapper_def c open_span_def close_span_new set_attribute_new u
          call_method_def trace_method_def is_async_def is_async_gen_def)
  have g: "trace_method (Def m) = AsyncGenWrapper (Def m) \<and>
          consume (Suc (length items)) lim h m self args kws NotStarted tr =
            (Finished,
             tr @ [\<lparr>span_name = class_name self @ ''.'' @ meth_name m,
                    span_attrs = attrs @ [(''chunk_count'', SInt (int (length items)))],
                    span_closed = True\<rparr>],
             items, Some (Raised e))"
    if "meth_body m = AsyncGenBody g" "g self args kws = yields items (GRaise e)" for g items e
  proof -
    have cg: "call_gen m self args kws = yields items (GRaise e)"
      using that by (simp add: call_gen_def)
    from consume_to_end [OF c assms(2) cg, of e "Suc (length items)" tr]
    show ?thesis using that by (simp add: trace_method_def is_async_gen_def)
  qed
  from c e s a g show ?thesis by blast
qed

text \<open>
  C2 as stated fails three ways: a cancellation passes the asynchronous wrapper with
  no \<open>error\<close> attribute set; an error whose \<open>__str__\<close> raises is replaced by the error
  of \<open>__str__\<close>; and with an argument that contains itself the wrapper raises
  \<open>RecursionError\<close>, not the error of the body.
\<close>

theorem wrapper_reraises_counterexample:
  "call_method (raising_method cancelled) (Receiver ''X'' 0) [PStr ''k''] [] = Inl cancelled \<and>
   async_wrapper 1 empty_heap (raising_method cancelled) (Receiver ''X'' 0) [PStr ''k''] [] []
     = ([\<lparr>span_name = ''X.fetch'',
          span_attrs = [(''__autotraced__'', SBool True), (''__class__'', SStr ''X''),
                        (''__method__'', SStr ''fetch''), (''__type__'', SStr ''async''),
                        (''__args__'', SStr (py_repr (SDict [(''key'', SStr ''k'')])))],
          span_closed = True\<rparr>], Inl cancelled) \<and>
   call_method (raising_method unprintable) (Receiver ''X'' 0) [PStr ''k''] [] = Inl unprintable \<and>
   snd (async_wrapper 1 empty_heap (raising_method unprintable) (Receiver ''X'' 0) [PStr ''k''] [] [])
     = Inl (Exn ''ValueError'' True (Inr ''no text'')) \<and>
   call_method failing_method (Receiver ''X'' 0) [PRef 0] [] = Inl not_found \<and>
   (\<forall>lim tr. sync_wrapper lim self_list_heap failing_method (Receiver ''X'' 0) [PRef 0] [] tr
       = (tr, Inl RecursionError))"
proof -
  have c: "\<And>e. create_span_context 1 empty_heap (raising_method e) (Receiver ''X'' 0) [PStr ''k''] []
     = Inr (''X'', ''fetch'',
         [(''__autotraced__'', SBool True), (''__class__'', SStr ''X''),
          (''__method__'', SStr ''fetch''), (''__type__'', SStr ''async''),
          (''__args__'', SStr (py_repr (SDict [(''key'', SStr ''k'')])))])"
    by (simp add: create_span_context_def combine_args_def raising_method_def span_type_def
        is_async_def is_async_gen_def del: py_repr.simps)
  have m: "\<And>e. call_method (raising_method e) (Receiver ''X'' 0) [PStr ''k''] [] = Inl e"
    by (simp add: call_method_def raising_method_def raising_body_def)
  have 1: "async_wrapper 1 empty_heap (raising_method cancelled) (Receiver ''X'' 0) [PStr ''k''] [] []
     = ([\<lparr>span_name = ''X.fetch'',
          span_attrs = [(''__autotraced__'', SBool True), (''__class__'', SStr ''X''),
                        (''__method__'', SStr ''fetch''), (''__type__'', SStr ''async''),
                        (''__args__'', SStr (py_repr (SDict [(''key'', SStr ''k'')])))],
          span_closed = True\<rparr>], Inl cancelled)"
    unfolding async_wrapper_def c m
    by (simp add: cancelled_def open_span_def close_span_def upd_span_def del: py_repr.simps)
  have 2: "snd (async_wrapper 1 empty_heap (raising_method unprintable) (Receiver ''X'' 0) [PStr ''k''] [] [])
     = Inl (Exn ''ValueError'' True (Inr ''no text''))"
    unfolding async_wrapper_def c m
    by (simp add: unprintable_def open_span_def del: py_repr.simps)
  have 3: "call_method failing_method (Receiver ''X'' 0) [PRef 0] [] = Inl not_found"
    by (simp add: call_method_def failing_method_def raising_body_def)
  have 4: "\<forall>lim tr. sync_wrapper lim self_list_heap failing_method (Receiver ''X'' 0) [PRef 0] [] tr
       = (tr, Inl RecursionError)"
    by (simp add: sync_wrapper_def create_span_context_self_list)
  from m 1 2 3 4 show ?thesis by simp
qed

text \<open>
  The amended C2 at an asynchronous method that raises \<open>not found\<close>, and at a stream
  that raises it after two chunks.
\<close>

theorem wrapper_reraises_witness:
  "returns (create_span_context 1 empty_heap (raising_method not_found) (Receiver ''X'' 0) [PStr ''k''] []) \<and>
   ''self'' \<notin> fst ` set ([] :: kwargs) \<and>
   meth_body (raising_method not_found) = AsyncBody (raising_body not_found) \<and>
   raising_body not_found (Receiver ''X'' 0) [PStr ''k''] [] = Inl not_found \<and>
   is_Exception not_found \<and> exn_str not_found = Inr ''not found'' \<and>
   trace_method (Def (raising_method not_found)) = AsyncWrapper (Def (raising_method not_found)) \<and>
   async_wrapper 1 empty_heap (raising_method not_found) (Receiver ''X'' 0) [PStr ''k''] [] []
     = ([\<lparr>span_name = ''X.fetch'',
          span_attrs = [(''__autotraced__'', SBool True), (''__class__'', SStr ''X''),
                        (''__method__'', SStr ''fetch''), (''__type__'', SStr ''async''),
                        (''__args__'', SStr (py_repr (SDict [(''key'', SStr ''k'')]))),
                        (''error'', SStr ''not found'')],
          span_closed = True\<rparr>], Inl not_found) \<and>
   returns (create_span_context 1 empty_heap broken_stream_method (Receiver ''X'' 0) [PStr ''hi''] []) \<and>
   (\<exists>g. meth_body broken_stream_method = AsyncGenBody g \<and>
        g (Receiver ''X'' 0) [PStr ''hi''] [] = yields [PStr ''a'', PStr ''b''] (GRaise not_found)) \<and>
   trace_method (Def broken_stream_method) = AsyncGenWrapper (Def broken_stream_method) \<and>
   consume 3 1 empty_heap broken_stream_method (Receiver ''X'' 0) [PStr ''hi''] [] NotStarted []
     = (Finished,
        [\<lparr>span_name = ''X.answer'',
          span_attrs = [(''__autotraced__'', SBool True), (''__class__'', SStr ''X''),
                        (''__method__'', SStr ''answer''), (''__type__'', SStr ''async_generator''),
                        (''__args__'', SStr (py_repr (SDict [(''prompt'', SStr ''hi'')]))),
                        (''chunk_count'', SInt 2)],
          span_closed = True\<rparr>],
        [PStr ''a'', PStr ''b''], Some (Raised not_found))"
proof -
  let ?g = "\<lambda>(self :: receiver) (args :: pyval list) (kws :: kwargs).
      yields [PStr ''a'', PStr ''b''] (GRaise not_found)"
  have cg: "create_span_context 1 empty_heap broken_stream_method (Receiver ''X'' 0) [PStr ''hi''] []
     = Inr (''X'', ''answer'',
         [(''__autotraced__'', SBool True), (''__class__'', SStr ''X''),
          (''__method__'', SStr ''answer''), (''__type__'', SStr ''async_generator''),
          (''__args__'', SStr (py_repr (SDict [(''prompt'', SStr ''hi'')])))])"
    by (simp add: create_span_context_def combine_args_def broken_stream_method_def span_type_def
        is_async_gen_def del: py_repr.simps)
  then have g1: "returns (create_span_context 1 empty_heap broken_stream_method
      (Receiver ''X'' 0) [PStr ''hi''] [])" by simp
  have g2: "meth_body broken_stream_method = AsyncGenBody ?g"
    by (simp add: broken_stream_method_def)
  have g3: "\<exists>g. meth_body broken_stream_method = AsyncGenBody g \<and>
        g (Receiver ''X'' 0) [PStr ''hi''] [] = yields [PStr ''a'', PStr ''b''] (GRaise not_found)"
    using g2 by simp
  have gk: "''self'' \<notin> fst ` set ([] :: kwargs)" by simp
  from wrapper_reraises [where m = broken_stream_method and tr = "[]" and lim = 1
      and h = empty_heap and self = "Receiver ''X'' 0" and args = "[PStr ''hi'']" and kws = "[]",
      OF g1 gk] cg
  have "\<forall>g items e. meth_body broken_stream_method = AsyncGenBody g \<and>
          g (Receiver ''X'' 0) [PStr ''hi''] [] = yields items (GRaise e) \<longrightarrow>
          trace_method (Def broken_stream_method) = AsyncGenWrapper (Def broken_stream_method) \<and>
          consume (Suc (length items)) 1 empty_heap broken_stream_method (Receiver ''X'' 0)
              [PStr ''hi''] [] NotStarted [] =
            (Finished,
             [\<lparr>span_name = ''X.answer'',
               span_attrs = [(''__autotraced__'', SBool True), (''__class__'', SStr ''X''),
                        (''__method__'', SStr ''answer''), (''__type__'', SStr ''async_generator''),
                        (''__args__'', SStr (py_repr (SDict [(''prompt'', SStr ''hi'')]))),
                        (''chunk_count'', SInt (int (length items)))],
               span_closed = True\<rparr>],
             items, Some (Raised e))"
    by (auto simp del: py_repr.simps simp: broken_stream_method_def)
  from this [rule_format, of ?g "[PStr ''a'', PStr ''b'']" not_found] g2
  have g4: "trace_method (Def broken_stream_method) = AsyncGenWrapper (Def broken_stream_method) \<and>
   consume 3 1 empty_heap broken_stream_method (Receiver ''X'' 0) [PStr ''hi''] [] NotStarted []
     = (Finished,
        [\<lparr>span_name = ''X.answer'',
          span_attrs = [(''__autotraced__'', SBool True), (''__class__'', SStr ''X''),
                        (''__method__'', SStr ''answer''), (''__type__'', SStr ''async_generator''),
                        (''__args__'', SStr (py_repr (SDict [(''prompt'', SStr ''hi'')]))),
                        (''chunk_count'', SInt 2)],
          span_closed = True\<rparr>],
        [PStr ''a'', PStr ''b''], Some (Raised not_found))"
    by (simp add: numeral_3_eq_3 del: py_repr.simps consume.simps)
  have c: "create_span_context 1 empty_heap (raising_method not_found) (Receiver ''X'' 0) [PStr ''k''] []
     = Inr (''X'', ''fetch'',
         [(''__autotraced__'', SBool True), (''__class__'', SStr ''X''),
          (''__method__'', SStr ''fetch''), (''__type__'', SStr ''async''),
          (''__args__'', SStr (py_repr (SDict [(''key'', SStr ''k'')])))])"
    by (simp add: create_span_context_def combine_args_def raising_method_def span_type_def
        is_async_def is_async_gen_def del: py_repr.simps)
  then have 1: "returns (create_span_context 1 empty_heap (raising_method not_found)
      (Receiver ''X'' 0) [PStr ''k''] [])" by simp
  have 2: "''self'' \<notin> fst ` set ([] :: kwargs)" by simp
  have 3: "meth_body (raising_method not_found) = AsyncBody (raising_body not_found)"
    by (simp add: raising_method_def)
  have 4: "raising_body not_found (Receiver ''X'' 0) [PStr ''k''] [] = Inl not_found"
    by (simp add: raising_body_def)
  have 5: "is_Exception not_found" "exn_str not_found = Inr ''not found''"
    by (simp_all add: not_found_def)
  from wrapper_reraises [where m = "raising_method not_found" and tr = "[]" and lim = 1
      and h = empty_heap and self = "Receiver ''X'' 0" and args = "[PStr ''k'']" and kws = "[]",
      OF 1 2] 3 4 5 c
  have "trace_method (Def (raising_method not_found)) = AsyncWrapper (Def (raising_method not_found)) \<and>
   async_wrapper 1 empty_heap (raising_method not_found) (Receiver ''X'' 0) [PStr ''k''] [] []
     = ([\<lparr>span_name = ''X.fetch'',
          span_attrs = [(''__autotraced__'', SBool True), (''__class__'', SStr ''X''),
                        (''__method__'', SStr ''fetch''), (''__type__'', SStr ''async''),
                        (''__args__'', SStr (py_repr (SDict [(''key'', SStr ''k'')]))),
                        (''error'', SStr ''not found'')],
          span_closed = True\<rparr>], Inl not_found)"
    by (auto simp del: py_repr.simps)
  with 1 2 3 4 5 g1 g3 g4 show ?thesis by (simp del: py_repr.simps consume.simps)
qed

subsection \<open>Claim C3\<close>

text \<open>
  C3 fails on the code: of a stream of three chunks the consumer takes two and closes
  the generator; the span is closed, but its \<open>chunk_count\<close> is 1, not 2. The wrapper
  increments \<open>count\<close> after \<open>yield item\<close> resumes, and for the last chunk delivered it
  never resumes.
\<close>

theorem early_close_counts_one_less:
  "consume_then_close 2 lim h stream_method (Receiver ''X'' 0) [] [] []
     = (Finished,
        [\<lparr>span_name = ''X.stream'',
          span_attrs = [(''__autotraced__'', SBool True), (''__class__'', SStr ''X''),
                        (''__method__'', SStr ''stream''), (''__type__'', SStr ''async_generator''),
                        (''__args__'', SStr ''{}''), (''chunk_count'', SInt 1)],
          span_closed = True\<rparr>],
        [PStr ''a'', PStr ''b''], None)"
  by (simp add: consume_then_close_def numeral_2_eq_2 agen_anext_def create_span_context_def
      combine_args_def stream_method_def span_type_def is_async_gen_def open_span_def
      agen_pull_def call_gen_def agen_aclose_def close_span_def set_attribute_def upd_span_def)

subsection \<open>Claim C4\<close>




subsection \<open>Claim C6\<close>

text \<open>
  C6: \<open>add(2, 3)\<close> on an instance of a class \<open>X\<close>, wrapped, opens a span \<open>X.add\<close>
  whose attributes have \<open>__method__\<close> \<open>add\<close> and, as \<open>__args__\<close>, the string form of
  the argument mapping \<open>{'a': 2, 'b': 3}\<close>; on return the \<open>output\<close> attribute is 5, the
  span is closed and 5 is returned.
\<close>

theorem add_scenario:
  "sync_wrapper (Suc lim) h add_method (Receiver ''X'' i) [PInt 2, PInt 3] [] tr
     = (tr @ [\<lparr>span_name = ''X.add'',
               span_attrs = [(''__autotraced__'', SBool True), (''__class__'', SStr ''X''),
                             (''__method__'', SStr ''add''), (''__type__'', SStr ''sync''),
                             (''__args__'', SStr (py_repr (SDict [(''a'', SInt 2), (''b'', SInt 3)]))),
                             (''output'', SInt 5)],
               span_closed = True\<rparr>],
        Inr (PInt 5))
   \<and> combine_args (Suc lim) h add_method [PInt 2, PInt 3] [] = Inr [(''a'', SInt 2), (''b'', SInt 3)]
   \<and> py_repr (SDict [(''a'', SInt 2), (''b'', SInt 3)])
       = [CHR ''{'', CHR 0x27, CHR ''a'', CHR 0x27, CHR '':'', CHR '' '', CHR ''2'', CHR '','', CHR '' '',
          CHR 0x27, CHR ''b'', CHR 0x27, CHR '':'', CHR '' '', CHR ''3'', CHR ''}'']"
proof -
  have c: "combine_args (Suc lim) h add_method [PInt 2, PInt 3] [] = Inr [(''a'', SInt 2), (''b'', SInt 3)]"
    by (simp add: combine_args_def add_method_def)
  have r: "py_repr (SDict [(''a'', SInt 2), (''b'', SInt 3)])
       = [CHR ''{'', CHR 0x27, CHR ''a'', CHR 0x27, CHR '':'', CHR '' '', CHR ''2'', CHR '','', CHR '' '',
          CHR 0x27, CHR ''b'', CHR 0x27, CHR '':'', CHR '' '', CHR ''3'', CHR ''}'']"
    by code_simp
  have m: "call_method add_method (Receiver ''X'' i) [PInt 2, PInt 3] [] = Inr (PInt 5)"
    by (simp add: call_method_def add_method_def add_body_def)
  have n: "meth_name add_method = ''add''" by (simp add: add_method_def)
  have t: "span_type add_method = ''sync''"
    by (simp add: span_type_def is_async_def is_async_gen_def add_method_def)
  have "sync_wrapper (Suc lim) h add_method (Receiver ''X'' i) [PInt 2, PInt 3] [] tr
     = (tr @ [\<lparr>span_name = ''X.add'',
               span_attrs = [(''__autotraced__'', SBool True), (''__class__'', SStr ''X''),
                             (''__method__'', SStr ''add''), (''__type__'', SStr ''sync''),
                             (''__args__'', SStr (py_repr (SDict [(''a'', SInt 2), (''b'', SInt 3)]))),
                             (''output'', SInt 5)],
               span_closed = True\<rparr>],
        Inr (PInt 5))"
    unfolding sync_wrapper_def create_span_context_def c m n t
    by (simp add: open_span_def close_span_new set_attribute_new str_int_raises_small
        del: py_repr.simps)
  with c r show ?thesis by simp
qed

subsection \<open>Claim C7\<close>




subsection \<open>Claim C8\<close>

text \<open>
  C8: an attribute whose name begins with an underscore is never replaced: after any
  class statement, under any chain of hooks, the new class holds under that name what
  its body declared, and every other class holds what it held before.
\<close>

theorem private_never_wrapped:
  assumes "startswith_underscore name"
  shows "map_of (vars_of (define_class c parent ns cs) d) name
     = (if d = c then map_of ns name else map_of (vars_of cs d) name)"
proof -
  let ?pmro = "case parent of None \<Rightarrow> [] | Some p \<Rightarrow> (case cs p of None \<Rightarrow> [] | Some k \<Rightarrow> cls_mro k)"
  let ?cs1 = "cs(c \<mapsto> \<lparr>cls_mro = c # ?pmro, cls_vars = ns\<rparr>)"
  have "map_of (vars_of (define_class c parent ns cs) d) name = map_of (vars_of ?cs1 d) name"
    unfolding define_class_def Let_def by (rule run_private(1) [OF assms])
  also have "\<dots> = (if d = c then map_of ns name else map_of (vars_of cs d) name)"
    by (simp add: vars_of_def)
  finally show ?thesis .
qed

text \<open>C8 at the class \<open>B\<close> of the examples and its \<open>_helper\<close>.\<close>

theorem private_never_wrapped_witness:
  "startswith_underscore ''_helper'' \<and>
   map_of (vars_of (define_class ''B'' (Some ''A'') ns_B (trace_protocol ''A'' base_classes)) ''B'')
      ''_helper'' = Some (Function (Def add_method)) \<and>
   map_of (vars_of (define_class ''B'' (Some ''A'') ns_B (trace_protocol ''A'' base_classes)) ''A'')
      ''_helper'' = None"
proof -
  have u: "startswith_underscore ''_helper''" by (simp add: startswith_underscore_def)
  from private_never_wrapped [OF u, of "''B''" "Some ''A''" ns_B "trace_protocol ''A'' base_classes" "''B''"]
    private_never_wrapped [OF u, of "''B''" "Some ''A''" ns_B "trace_protocol ''A'' base_classes" "''A''"]
    u
  show ?thesis
    by (simp add: ns_B_def vars_of_def trace_protocol_def base_classes_def)
qed

subsection \<open>Claim C10\<close>

text \<open>
  C10 fails in the code. The installed hook calls \<open>original_init_subclass\<close> as \<open>getattr\<close>
  returned it, a method bound to the decorated class; when that is itself a tracing
  hook, every later subclass statement runs it for the decorated class and wraps the
  public functions of the decorated class itself. With \<open>A\<close> decorated twice, the
  decorations leave \<open>ping\<close> of \<open>A\<close> as it was, and the class statement \<open>class B(A)\<close>, with
  any body, replaces it by a wrapper. With \<open>A\<close> decorated, \<open>class B(A)\<close> defined and \<open>B\<close>
  decorated, the decoration leaves \<open>run\<close> of \<open>B\<close> as it was (wrapped once, as of a
  subclass of \<open>A\<close>), and the class statement \<open>class C(B)\<close>, with any body, wraps it a
  second time.
\<close>

theorem stacked_hook_wraps_base:
  "map_of (vars_of (trace_protocol ''A'' (trace_protocol ''A'' base_classes)) ''A'') ''ping''
     = Some (Function (Def echo_method)) \<and>
   (\<forall>ns. map_of (vars_of (define_class ''B'' (Some ''A'') ns
              (trace_protocol ''A'' (trace_protocol ''A'' base_classes))) ''A'') ''ping''
     = Some (Function (SyncWrapper (Def echo_method)))) \<and>
   map_of (vars_of (trace_protocol ''B''
        (define_class ''B'' (Some ''A'') ns_B (trace_protocol ''A'' base_classes))) ''B'') ''run''
     = Some (Function (SyncWrapper (Def echo_method))) \<and>
   (\<forall>ns. map_of (vars_of (define_class ''C'' (Some ''B'') ns (trace_protocol ''B''
        (define_class ''B'' (Some ''A'') ns_B (trace_protocol ''A'' base_classes)))) ''B'') ''run''
     = Some (Function (SyncWrapper (SyncWrapper (Def echo_method)))))"
proof -
  let ?cs2 = "trace_protocol ''A'' (trace_protocol ''A'' base_classes)"
  have 1: "map_of (vars_of ?cs2 ''A'') ''ping'' = Some (Function (Def echo_method))"
    by (simp add: trace_protocol_def base_classes_def vars_of_def own_hook_def Let_def)
  have 2: "map_of (vars_of (define_class ''B'' (Some ''A'') ns ?cs2) ''A'') ''ping''
     = Some (Function (SyncWrapper (Def echo_method)))" for ns
    by (simp add: define_class_def trace_protocol_def base_classes_def trace_class_def vars_of_def
        trace_vars_def trace_item_def startswith_underscore_def trace_method_examples
        own_hook_def after_class_def Let_def)
  let ?csB = "trace_protocol ''B''
        (define_class ''B'' (Some ''A'') ns_B (trace_protocol ''A'' base_classes))"
  have 3: "map_of (vars_of ?csB ''B'') ''run'' = Some (Function (SyncWrapper (Def echo_method)))"
    by (simp add: define_class_def trace_protocol_def base_classes_def trace_class_def vars_of_def
        trace_vars_def trace_item_def startswith_underscore_def trace_method_examples
        own_hook_def after_class_def ns_B_def Let_def)
  have 4: "map_of (vars_of (define_class ''C'' (Some ''B'') ns ?csB) ''B'') ''run''
     = Some (Function (SyncWrapper (SyncWrapper (Def echo_method))))" for ns
    by (simp add: define_class_def trace_protocol_def base_classes_def trace_class_def vars_of_def
        trace_vars_def trace_item_def startswith_underscore_def trace_method_examples
        own_hook_def after_class_def ns_B_def Let_def trace_method_def is_async_def
        is_async_gen_def echo_method_def)
  from 1 2 3 4 show ?thesis by blast
qed
end
